theory Spec2Isabelle
  imports Main
begin

section \<open>JavaScript values\<close>

text \<open>
  The handler of \<^verbatim>\<open>chat_completion\<close> reads values that come from JSON: the tool
  arguments and the body of the remote response. A number is held as the text that
  JavaScript prints for it (\<^verbatim>\<open>Number.prototype.toString\<close>): the handler never
  computes with a number, it only tests it for truthiness and prints it, and the only
  number that prints as \<^verbatim>\<open>0\<close> is zero. An object is the list of its own
  properties, one pair for each key.
\<close>

type_synonym number = string

datatype json =
    JNull
  | JBool bool
  | JNum number
  | JStr string
  | JArr "json list"
  | JObj "(string \<times> json) list"

text \<open>A JavaScript value is a JSON value or \<^verbatim>\<open>undefined\<close>, which is \<open>None\<close>.\<close>

type_synonym jsval = "json option"

text \<open>
  What a \<^verbatim>\<open>throw\<close> or a rejected promise carries. \<^verbatim>\<open>McpError\<close> and its
  \<^verbatim>\<open>ErrorCode\<close> come from the protocol SDK; \<open>JsError name message\<close> is any other
  instance of \<^verbatim>\<open>Error\<close>; \<open>NonError s\<close> is a thrown value that is not an
  \<^verbatim>\<open>Error\<close>, with \<open>s\<close> the text \<^verbatim>\<open>String(value)\<close>.
\<close>

datatype ErrorCode = MethodNotFound | InvalidParams | InternalError

datatype thrown =
    McpError ErrorCode string
  | JsError string string
  | NonError string

fun code_number :: "ErrorCode \<Rightarrow> string" where
  "code_number MethodNotFound = ''-32601''"
| "code_number InvalidParams = ''-32602''"
| "code_number InternalError = ''-32603''"

text \<open>
  \<^verbatim>\<open>error instanceof Error ? error.message : String(error)\<close>. The SDK's
  \<^verbatim>\<open>McpError\<close> constructor sets the message to
  \<^verbatim>\<open>`MCP error ${code}: ${message}`\<close>.
\<close>

fun error_text :: "thrown \<Rightarrow> string" where
  "error_text (McpError c m) = ''MCP error '' @ code_number c @ '': '' @ m"
| "error_text (JsError n m) = m"
| "error_text (NonError s) = s"

definition quote :: "string \<Rightarrow> string" where
  "quote s = [CHR 0x27] @ s @ [CHR 0x27]"

definition null_access :: "string \<Rightarrow> thrown" where
  "null_access k =
     JsError ''TypeError'' (''Cannot read properties of null (reading '' @ quote k @ '')'')"

definition abort_error :: thrown where
  "abort_error = JsError ''AbortError'' ''This operation was aborted''"

definition not_primitive :: thrown where
  "not_primitive = JsError ''TypeError'' ''Cannot convert object to primitive value''"

text \<open>Truthiness, as the conditional operator and \<^verbatim>\<open>!\<close> test it.\<close>

fun truthy :: "json \<Rightarrow> bool" where
  "truthy JNull = False"
| "truthy (JBool b) = b"
| "truthy (JNum n) = (n \<noteq> ''0'')"
| "truthy (JStr s) = (s \<noteq> [])"
| "truthy (JArr xs) = True"
| "truthy (JObj kvs) = True"

fun truthy_val :: "jsval \<Rightarrow> bool" where
  "truthy_val None = False"
| "truthy_val (Some j) = truthy j"

fun nullish :: "jsval \<Rightarrow> bool" where
  "nullish None = True"
| "nullish (Some j) = (j = JNull)"

text \<open>
  Property access \<^verbatim>\<open>v.k\<close>. Reading a property of \<^verbatim>\<open>null\<close> throws a
  \<^verbatim>\<open>TypeError\<close>. The handler reads the names \<^verbatim>\<open>choices\<close>,
  \<^verbatim>\<open>message\<close>, \<^verbatim>\<open>content\<close> and \<^verbatim>\<open>error\<close> only, which no
  built-in prototype defines, so a value other than an object has none of them.
\<close>

fun get_prop :: "json \<Rightarrow> string \<Rightarrow> thrown + jsval" where
  "get_prop JNull k = Inl (null_access k)"
| "get_prop (JObj kvs) k = Inr (map_of kvs k)"
| "get_prop j k = Inr None"

text \<open>Element access \<^verbatim>\<open>v[0]\<close> on a value that is neither null nor undefined.\<close>

fun get_index0 :: "json \<Rightarrow> jsval" where
  "get_index0 (JArr xs) = (case xs of [] \<Rightarrow> None | x # _ \<Rightarrow> Some x)"
| "get_index0 (JStr s) = (case s of [] \<Rightarrow> None | c # _ \<Rightarrow> Some (JStr [c]))"
| "get_index0 (JObj kvs) = map_of kvs ''0''"
| "get_index0 j = None"

fun join :: "string \<Rightarrow> string list \<Rightarrow> string" where
  "join sep [] = []"
| "join sep [x] = x"
| "join sep (x # y # ys) = x @ sep @ join sep (y # ys)"

text \<open>
  The text a template literal prints for a value, \<open>None\<close> when the conversion throws
  \<open>not_primitive\<close>: an object prints as \<^verbatim>\<open>[object Object]\<close> unless it has a
  property \<^verbatim>\<open>toString\<close> of its own, which a JSON value cannot call; an array
  joins its elements with commas, a null element printing as nothing.
\<close>

fun to_string :: "json \<Rightarrow> string option" where
  "to_string JNull = Some ''null''"
| "to_string (JBool b) = Some (if b then ''true'' else ''false'')"
| "to_string (JNum n) = Some n"
| "to_string (JStr s) = Some s"
| "to_string (JArr xs) =
     (let parts = map (\<lambda>x. if x = JNull then Some [] else to_string x) xs
      in if None \<in> set parts then None else Some (join '','' (map the parts)))"
| "to_string (JObj kvs) =
     (if ''toString'' \<in> fst ` set kvs then None else Some ''[object Object]'')"

text \<open>The operators \<^verbatim>\<open>a ?? b\<close> and \<^verbatim>\<open>a?.f\<close> on optional values.\<close>

definition coalesce :: "'a option \<Rightarrow> 'a option \<Rightarrow> 'a option" where
  "coalesce a b = (case a of Some x \<Rightarrow> Some x | None \<Rightarrow> b)"

definition coalesce_default :: "'a option \<Rightarrow> 'a \<Rightarrow> 'a" where
  "coalesce_default a d = (case a of Some x \<Rightarrow> x | None \<Rightarrow> d)"

definition opt_chain :: "'a option \<Rightarrow> ('a \<Rightarrow> 'b option) \<Rightarrow> 'b option" where
  "opt_chain a f = (case a of None \<Rightarrow> None | Some x \<Rightarrow> f x)"

section \<open>Prompt templates\<close>

text \<open>
  A template as the handler sees it: an object of which it reads \<^verbatim>\<open>system\<close>,
  \<^verbatim>\<open>format\<close> and \<^verbatim>\<open>include_sources\<close>, each of which may be missing
  (nothing validates a custom template against the declared schema).
\<close>

record template_obj =
  tpl_system :: "string option"
  tpl_format :: "string option"
  tpl_include_sources :: "bool option"
  tpl_description :: "string option"

definition PROMPT_TEMPLATES :: "(string \<times> template_obj) list" where
  "PROMPT_TEMPLATES =
   [(''technical_docs'',
     \<lparr>tpl_system = Some ''You are a technical documentation assistant. Provide clear, accurate, and well-structured information with code examples where relevant.'',
      tpl_format = Some ''markdown'',
      tpl_include_sources = Some True,
      tpl_description = Some ''Technical documentation with code examples and source references''\<rparr>),
    (''security_practices'',
     \<lparr>tpl_system = Some ''You are a security expert. Provide detailed security best practices, implementation guidelines, and potential vulnerability mitigations.'',
      tpl_format = Some ''markdown'',
      tpl_include_sources = Some True,
      tpl_description = Some ''Security best practices and implementation guidelines with references''\<rparr>),
    (''code_review'',
     \<lparr>tpl_system = Some ''You are a code review assistant. Analyze code for best practices, potential issues, and suggest improvements.'',
      tpl_format = Some ''markdown'',
      tpl_include_sources = Some False,
      tpl_description = Some ''Code analysis focusing on best practices and improvements''\<rparr>),
    (''api_docs'',
     \<lparr>tpl_system = Some ''You are an API documentation assistant. Provide clear explanations of API endpoints, parameters, and usage examples.'',
      tpl_format = Some ''json'',
      tpl_include_sources = Some True,
      tpl_description = Some ''API documentation in structured JSON format with examples''\<rparr>)]"

text \<open>
  The catalog is an object literal, so \<^verbatim>\<open>PROMPT_TEMPLATES[key]\<close> also finds the
  properties that every object inherits from \<^verbatim>\<open>Object.prototype\<close>. Each of
  them is a function or an object, hence truthy, and has none of the three properties
  the handler reads.
\<close>

definition Object_prototype :: "string list" where
  "Object_prototype =
   [''constructor'', ''__defineGetter__'', ''__defineSetter__'', ''hasOwnProperty'',
    ''__lookupGetter__'', ''__lookupSetter__'', ''isPrototypeOf'',
    ''propertyIsEnumerable'', ''toString'', ''valueOf'', ''__proto__'',
    ''toLocaleString'']"

definition inherited_member :: template_obj where
  "inherited_member =
     \<lparr>tpl_system = None, tpl_format = None, tpl_include_sources = None,
      tpl_description = None\<rparr>"

definition PROMPT_TEMPLATES_at :: "string \<Rightarrow> template_obj option" where
  "PROMPT_TEMPLATES_at key =
     (case map_of PROMPT_TEMPLATES key of
        Some t \<Rightarrow> Some t
      | None \<Rightarrow> if key \<in> set Object_prototype then Some inherited_member else None)"

text \<open>
  \<^verbatim>\<open>custom_template ?? (prompt_template ? PROMPT_TEMPLATES[prompt_template] : null)\<close>;
  a string is truthy when it is not empty, and \<open>None\<close> is both \<^verbatim>\<open>null\<close> and
  \<^verbatim>\<open>undefined\<close>.
\<close>

definition template :: "template_obj option \<Rightarrow> string option \<Rightarrow> template_obj option" where
  "template custom_template prompt_template =
     coalesce custom_template
       (case prompt_template of
          None \<Rightarrow> None
        | Some key \<Rightarrow> if key \<noteq> [] then PROMPT_TEMPLATES_at key else None)"

text \<open>\<^verbatim>\<open>user_format ?? template?.format ?? 'text'\<close>\<close>

definition format :: "string option \<Rightarrow> template_obj option \<Rightarrow> string" where
  "format user_format tpl =
     coalesce_default (coalesce user_format (opt_chain tpl tpl_format)) ''text''"

text \<open>\<^verbatim>\<open>user_include_sources ?? template?.include_sources ?? false\<close>\<close>

definition include_sources :: "bool option \<Rightarrow> template_obj option \<Rightarrow> bool" where
  "include_sources user_include_sources tpl =
     coalesce_default
       (coalesce user_include_sources (opt_chain tpl tpl_include_sources)) False"

section \<open>The request\<close>

record message =
  role :: string
  content :: "string option"

text \<open>
  The arguments of the call. The handler destructures \<^verbatim>\<open>format\<close> and
  \<^verbatim>\<open>include_sources\<close> under the names \<^verbatim>\<open>user_format\<close> and
  \<^verbatim>\<open>user_include_sources\<close>. \<open>None\<close> is an argument that is not given.
\<close>

record arguments =
  messages :: "message list"
  prompt_template :: "string option"
  custom_template :: "template_obj option"
  model :: "string option"
  temperature :: "number option"
  max_tokens :: "number option"
  user_format :: "string option"
  user_include_sources :: "bool option"

record request =
  name :: string
  arguments :: arguments

text \<open>
  \<^verbatim>\<open>template ? [{ role: 'system', content: template.system }, ...messages] : messages\<close>;
  every template object is truthy.
\<close>

definition final_messages :: "template_obj option \<Rightarrow> message list \<Rightarrow> message list" where
  "final_messages tpl msgs =
     (case tpl of
        Some t \<Rightarrow> \<lparr>role = ''system'', content = tpl_system t\<rparr> # msgs
      | None \<Rightarrow> msgs)"

text \<open>The object that \<^verbatim>\<open>JSON.stringify\<close> turns into the body of the POST.\<close>

record body =
  body_model :: string
  body_messages :: "message list"
  body_temperature :: number
  body_max_tokens :: number
  body_format :: string
  body_include_sources :: bool

definition request_body :: "arguments \<Rightarrow> body" where
  "request_body args =
     (let tpl = template (custom_template args) (prompt_template args)
      in \<lparr>body_model = coalesce_default (model args) ''sonar'',
          body_messages = final_messages tpl (messages args),
          body_temperature = coalesce_default (temperature args) ''0.7'',
          body_max_tokens = coalesce_default (max_tokens args) ''1024'',
          body_format = format (user_format args) tpl,
          body_include_sources = include_sources (user_include_sources args) tpl\<rparr>)"

section \<open>The remote call\<close>

text \<open>
  How an awaited promise settles: it resolves, it rejects, or the 30 seconds pass first,
  in which case the timer's callback runs \<^verbatim>\<open>controller.abort()\<close> and the promise
  rejects with an \<^verbatim>\<open>AbortError\<close>.
\<close>

datatype 'a settled = Resolves 'a | Rejects thrown | TimesOut

record response =
  ok :: bool
  statusText :: string
  json :: "json settled"

text \<open>
  The timer of the call, and how often \<^verbatim>\<open>clearTimeout\<close> ran.
  \<^verbatim>\<open>clearTimeout\<close> cancels a pending timer and does nothing to one that fired.
\<close>

datatype timer = Unset | Pending | Fired | Cleared

record world =
  timeoutId :: timer
  clear_calls :: nat

definition setTimeout :: "world \<Rightarrow> world" where
  "setTimeout w = w\<lparr>timeoutId := Pending\<rparr>"

definition clearTimeout :: "world \<Rightarrow> world" where
  "clearTimeout w =
     w\<lparr>timeoutId := (if timeoutId w = Pending then Cleared else timeoutId w),
       clear_calls := Suc (clear_calls w)\<rparr>"

fun await :: "'a settled \<Rightarrow> world \<Rightarrow> (thrown + 'a) \<times> world" where
  "await (Resolves x) w = (Inr x, w)"
| "await (Rejects e) w = (Inl e, w)"
| "await TimesOut w = (Inl abort_error, w\<lparr>timeoutId := Fired\<rparr>)"

record content_entry =
  entry_type :: string
  entry_text :: jsval

record envelope =
  env_content :: "content_entry list"
  isError :: "bool option"

text \<open>\<^verbatim>\<open>data.choices?.[0]?.message\<close>\<close>

definition choices0_message :: "json \<Rightarrow> thrown + jsval" where
  "choices0_message data =
     (case get_prop data ''choices'' of
        Inl e \<Rightarrow> Inl e
      | Inr choices \<Rightarrow>
          if nullish choices then Inr None
          else let first = get_index0 (the choices)
               in if nullish first then Inr None
                  else get_prop (the first) ''message'')"

text \<open>
  \<^verbatim>\<open>`Perplexity API error: ${response.statusText}${errorData.error ? ` - ${errorData.error}` : ''}`\<close>
\<close>

definition api_error_message :: "string \<Rightarrow> json \<Rightarrow> thrown + string" where
  "api_error_message status errorData =
     (case get_prop errorData ''error'' of
        Inl e \<Rightarrow> Inl e
      | Inr detail \<Rightarrow>
          if truthy_val detail then
            (case to_string (the detail) of
               None \<Rightarrow> Inl not_primitive
             | Some s \<Rightarrow> Inr (''Perplexity API error: '' @ status @ '' - '' @ s))
          else Inr (''Perplexity API error: '' @ status))"

text \<open>
  The body of the inner \<^verbatim>\<open>try\<close>: the result is what it throws (\<open>Inl\<close>) or
  returns (\<open>Inr\<close>).
\<close>

definition attempt ::
  "string \<Rightarrow> (body \<Rightarrow> response settled) \<Rightarrow> body \<Rightarrow> world \<Rightarrow> (thrown + envelope) \<times> world" where
  "attempt fmt fetch b w =
     (case await (fetch b) w of
        (Inl e, w1) \<Rightarrow> (Inl e, w1)
      | (Inr resp, w1) \<Rightarrow>
          if \<not> ok resp then
            (case await (json resp) w1 of
               (parsed, w2) \<Rightarrow>
                 let errorData = (case parsed of Inl e \<Rightarrow> JObj [] | Inr j \<Rightarrow> j)
                 in (case api_error_message (statusText resp) errorData of
                       Inl e \<Rightarrow> (Inl e, w2)
                     | Inr m \<Rightarrow> (Inl (McpError InternalError m), w2)))
          else
            (case await (json resp) w1 of
               (Inl e, w2) \<Rightarrow> (Inl e, w2)
             | (Inr data, w2) \<Rightarrow>
                 (case choices0_message data of
                    Inl e \<Rightarrow> (Inl e, w2)
                  | Inr msg \<Rightarrow>
                      if \<not> truthy_val msg then
                        (Inl (McpError InternalError
                               ''Invalid response format from Perplexity API''), w2)
                      else
                        (case get_prop (the msg) ''content'' of
                           Inl e \<Rightarrow> (Inl e, w2)
                         | Inr c \<Rightarrow>
                             (Inr \<lparr>env_content =
                                     [\<lparr>entry_type = (if fmt = ''json'' then ''json'' else ''text''),
                                       entry_text = c\<rparr>],
                                   isError = None\<rparr>, w2)))))"

text \<open>What the \<^verbatim>\<open>catch\<close> of the outer \<^verbatim>\<open>try\<close> returns.\<close>

definition error_envelope :: "thrown \<Rightarrow> envelope" where
  "error_envelope error =
     \<lparr>env_content =
        [\<lparr>entry_type = ''text'',
          entry_text = Some (JStr (''Error generating completion: '' @ error_text error))\<rparr>],
      isError = Some True\<rparr>"

text \<open>
  The handler of \<^verbatim>\<open>CallToolRequestSchema\<close>: \<open>Inl\<close> is an error thrown to the
  protocol layer, \<open>Inr\<close> the envelope returned. The timer is set, the inner
  \<^verbatim>\<open>try\<close> runs, its \<^verbatim>\<open>finally\<close> clears the timer, and the outer
  \<^verbatim>\<open>catch\<close> turns whatever was thrown into an envelope.
\<close>

definition handler ::
  "(body \<Rightarrow> response settled) \<Rightarrow> request \<Rightarrow> world \<Rightarrow> (thrown + envelope) \<times> world" where
  "handler fetch req w =
     (if name req \<noteq> ''chat_completion'' then
        (Inl (McpError MethodNotFound (''Unknown tool: '' @ name req)), w)
      else
        let args = arguments req;
            b = request_body args;
            w1 = setTimeout w;
            (r, w2) = attempt (body_format b) fetch b w1;
            w3 = clearTimeout w2
        in (case r of
              Inl error \<Rightarrow> (Inr (error_envelope error), w3)
            | Inr env \<Rightarrow> (Inr env, w3)))"

section \<open>Failures of the remote call\<close>



section \<open>Sample requests and responses\<close>

definition sample_args :: arguments where
  "sample_args =
     \<lparr>messages = [\<lparr>role = ''user'', content = Some ''hi''\<rparr>],
      prompt_template = None, custom_template = None, model = None,
      temperature = None, max_tokens = None, user_format = None,
      user_include_sources = None\<rparr>"

definition chat :: "arguments \<Rightarrow> request" where
  "chat args = \<lparr>name = ''chat_completion'', arguments = args\<rparr>"

definition completion :: "string \<Rightarrow> json" where
  "completion c =
     JObj [(''choices'',
            JArr [JObj [(''message'',
                         JObj [(''role'', JStr ''assistant''), (''content'', JStr c)]),
                        (''finish_reason'', JStr ''stop'')]])]"

definition fetch_ok :: "json \<Rightarrow> body \<Rightarrow> response settled" where
  "fetch_ok data b = Resolves \<lparr>ok = True, statusText = ''OK'', json = Resolves data\<rparr>"


definition fetch_timeout :: "body \<Rightarrow> response settled" where
  "fetch_timeout b = TimesOut"

definition fetch_rejects :: "thrown \<Rightarrow> body \<Rightarrow> response settled" where
  "fetch_rejects e b = Rejects e"

definition world0 :: world where
  "world0 = \<lparr>timeoutId = Unset, clear_calls = 0\<rparr>"

section \<open>Auxiliary facts\<close>

lemma catalog_keys:
  "map fst PROMPT_TEMPLATES = [''technical_docs'', ''security_practices'', ''code_review'', ''api_docs'']"
  by (simp add: PROMPT_TEMPLATES_def)

lemma catalog_fields:
  "list_all (\<lambda>(k, t). k \<noteq> [] \<and> tpl_system t \<noteq> None \<and> tpl_format t \<noteq> None \<and> tpl_include_sources t \<noteq> None)
     PROMPT_TEMPLATES"
  by (auto simp: PROMPT_TEMPLATES_def)

lemma catalog_entry:
  assumes "map_of PROMPT_TEMPLATES key = Some t"
  shows "key \<noteq> []" "\<exists>s. tpl_system t = Some s" "\<exists>f. tpl_format t = Some f"
    "\<exists>b. tpl_include_sources t = Some b"
proof -
  from assms have "(key, t) \<in> set PROMPT_TEMPLATES" by (rule map_of_SomeD)
  with catalog_fields have
    "key \<noteq> [] \<and> tpl_system t \<noteq> None \<and> tpl_format t \<noteq> None \<and> tpl_include_sources t \<noteq> None"
    unfolding list_all_iff by blast
  then show "key \<noteq> []" "\<exists>s. tpl_system t = Some s" "\<exists>f. tpl_format t = Some f"
    "\<exists>b. tpl_include_sources t = Some b"
    by auto
qed

lemma handler_chat:
  assumes "name req = ''chat_completion''"
  shows "handler fetch req w =
     (Inr (case fst (attempt (body_format (request_body (arguments req))) fetch
                      (request_body (arguments req)) (setTimeout w)) of
             Inl error \<Rightarrow> error_envelope error
           | Inr env \<Rightarrow> env),
      clearTimeout (snd (attempt (body_format (request_body (arguments req))) fetch
                      (request_body (arguments req)) (setTimeout w))))"
  using assms
  by (simp add: handler_def Let_def split: prod.splits sum.splits)

lemma body_format_eq:
  "body_format (request_body args) =
     format (user_format args) (template (custom_template args) (prompt_template args))"
  by (simp add: request_body_def Let_def)

lemma await_timer:
  assumes "await p w = (r, w')" "timeoutId w = Pending \<or> timeoutId w = Fired"
  shows "(timeoutId w' = Pending \<or> timeoutId w' = Fired) \<and> clear_calls w' = clear_calls w"
  using assms by (cases p) auto

lemma attempt_timer:
  assumes "timeoutId w = Pending \<or> timeoutId w = Fired"
  shows "(timeoutId (snd (attempt fmt fetch b w)) = Pending
          \<or> timeoutId (snd (attempt fmt fetch b w)) = Fired)
       \<and> clear_calls (snd (attempt fmt fetch b w)) = clear_calls w"
proof -
  obtain r1 w1 where a1: "await (fetch b) w = (r1, w1)" by (cases "await (fetch b) w")
  have t1: "(timeoutId w1 = Pending \<or> timeoutId w1 = Fired) \<and> clear_calls w1 = clear_calls w"
    using await_timer[OF a1 assms] .
  show ?thesis
  proof (cases r1)
    case (Inl e)
    then show ?thesis using a1 t1 by (simp add: attempt_def)
  next
    case (Inr resp)
    obtain r2 w2 where a2: "await (json resp) w1 = (r2, w2)" by (cases "await (json resp) w1")
    have t2: "(timeoutId w2 = Pending \<or> timeoutId w2 = Fired) \<and> clear_calls w2 = clear_calls w1"
      using await_timer[OF a2] t1 by blast
    have "snd (attempt fmt fetch b w) = w2"
      using a1 a2 Inr
      by (simp add: attempt_def Let_def split: sum.splits)
    then show ?thesis using t1 t2 by simp
  qed
qed



lemma sample_body:
  "request_body sample_args =
     \<lparr>body_model = ''sonar'',
      body_messages = [\<lparr>role = ''user'', content = Some ''hi''\<rparr>],
      body_temperature = ''0.7'', body_max_tokens = ''1024'',
      body_format = ''text'', body_include_sources = False\<rparr>"
  by (simp add: request_body_def sample_args_def template_def format_def include_sources_def
      final_messages_def coalesce_def coalesce_default_def opt_chain_def)

lemma get_prop_throws:
  "get_prop j k = Inl e \<longleftrightarrow> j = JNull \<and> e = null_access k"
  by (cases j) auto

lemma choices0_message_throws:
  "choices0_message data = Inl e \<longleftrightarrow> data = JNull \<and> e = null_access ''choices''"
proof (cases "get_prop data ''choices''")
  case (Inl e')
  then show ?thesis
    using get_prop_throws[of data "''choices''" e']
    by (auto simp: choices0_message_def)
next
  case (Inr choices)
  then have nn: "data \<noteq> JNull" by (cases data) auto
  have "choices0_message data \<noteq> Inl e"
  proof (cases "nullish choices")
    case True
    then show ?thesis using Inr by (simp add: choices0_message_def)
  next
    case False
    show ?thesis
    proof (cases "nullish (get_index0 (the choices))")
      case True
      then show ?thesis using Inr False by (simp add: choices0_message_def)
    next
      case F2: False
      then obtain x where x: "get_index0 (the choices) = Some x" "x \<noteq> JNull"
        by (cases "get_index0 (the choices)") auto
      then have "get_prop x ''message'' \<noteq> Inl e"
        using get_prop_throws[of x "''message''" e] by simp
      then show ?thesis using Inr False F2 x by (simp add: choices0_message_def)
    qed
  qed
  with nn show ?thesis by simp
qed

lemma missing_message_is_reported:
  assumes "name req = ''chat_completion''"
    and "fetch (request_body (arguments req)) = Resolves resp"
    and "ok resp"
    and "json resp = Resolves data"
    and "choices0_message data = Inr found"
    and "\<not> truthy_val found"
  shows "fst (handler fetch req w) =
           Inr (error_envelope
                  (McpError InternalError ''Invalid response format from Perplexity API''))"
  unfolding handler_chat[OF assms(1)]
  using assms(2-6) by (simp add: attempt_def)

section \<open>The claims\<close>

text \<open>
  C1, as stated: a \<^verbatim>\<open>prompt_template\<close> key that is not in the catalog, with no
  custom template, makes the call fail with an invalid-argument error. The handler has
  no such check. With the key \<^verbatim>\<open>no_such_template\<close> the request body is the one
  built with no template at all, and the call succeeds.
\<close>

theorem unknown_key_counterexample:
  "map_of PROMPT_TEMPLATES ''no_such_template'' = None
   \<and> request_body (sample_args\<lparr>prompt_template := Some ''no_such_template''\<rparr>) = request_body sample_args
   \<and> fst (handler (fetch_ok (completion ''pong''))
            (chat (sample_args\<lparr>prompt_template := Some ''no_such_template''\<rparr>)) world0) =
       Inr \<lparr>env_content = [\<lparr>entry_type = ''text'', entry_text = Some (JStr ''pong'')\<rparr>],
            isError = None\<rparr>"
proof -
  have m: "map_of PROMPT_TEMPLATES ''no_such_template'' = None"
    by (simp add: PROMPT_TEMPLATES_def)
  have t: "template None (Some ''no_such_template'') = None"
    by (simp add: template_def coalesce_def PROMPT_TEMPLATES_at_def m Object_prototype_def)
  have b: "request_body (sample_args\<lparr>prompt_template := Some ''no_such_template''\<rparr>) = request_body sample_args"
    using t by (simp add: request_body_def sample_args_def template_def coalesce_def)
  have n: "name (chat (sample_args\<lparr>prompt_template := Some ''no_such_template''\<rparr>)) = ''chat_completion''"
    by (simp add: chat_def)
  have h: "fst (handler (fetch_ok (completion ''pong''))
            (chat (sample_args\<lparr>prompt_template := Some ''no_such_template''\<rparr>)) world0) =
       Inr \<lparr>env_content = [\<lparr>entry_type = ''text'', entry_text = Some (JStr ''pong'')\<rparr>],
            isError = None\<rparr>"
    unfolding handler_chat[OF n]
    by (simp add: chat_def b sample_body attempt_def fetch_ok_def completion_def
        choices0_message_def)
  from m b h show ?thesis by blast
qed

text \<open>
  C1, as the code has it: a \<^verbatim>\<open>prompt_template\<close> key that names no property of
  the catalog object (it is not a catalog key and not a name inherited from
  \<^verbatim>\<open>Object.prototype\<close>), with no custom template, raises no error: the request
  body and the result of the handler are those of the same call without
  \<^verbatim>\<open>prompt_template\<close>.
\<close>

theorem unknown_key_is_no_template:
  assumes "map_of PROMPT_TEMPLATES key = None"
    and "key \<notin> set Object_prototype"
    and "custom_template args = None"
    and "prompt_template args = Some key"
  shows "request_body args = request_body (args\<lparr>prompt_template := None\<rparr>)
       \<and> handler fetch (chat args) w = handler fetch (chat (args\<lparr>prompt_template := None\<rparr>)) w
       \<and> (\<exists>env. fst (handler fetch (chat args) w) = Inr env)"
proof -
  have t: "template None (Some key) = None"
    using assms(1,2) by (simp add: template_def coalesce_def PROMPT_TEMPLATES_at_def)
  have t0: "template None None = None"
    by (simp add: template_def coalesce_def)
  have b: "request_body args = request_body (args\<lparr>prompt_template := None\<rparr>)"
    using assms(3,4) by (simp add: request_body_def t t0)
  have h: "handler fetch (chat args) w = handler fetch (chat (args\<lparr>prompt_template := None\<rparr>)) w"
    using b by (simp add: handler_def chat_def)
  have n: "name (chat args) = ''chat_completion''" by (simp add: chat_def)
  have "\<exists>env. fst (handler fetch (chat args) w) = Inr env"
    unfolding handler_chat[OF n] by simp
  with b h show ?thesis by blast
qed

theorem unknown_key_is_no_template_witness:
  "map_of PROMPT_TEMPLATES ''no_such_template'' = None
   \<and> ''no_such_template'' \<notin> set Object_prototype
   \<and> custom_template (sample_args\<lparr>prompt_template := Some ''no_such_template''\<rparr>) = None
   \<and> prompt_template (sample_args\<lparr>prompt_template := Some ''no_such_template''\<rparr>) = Some ''no_such_template''
   \<and> handler fetch_timeout (chat (sample_args\<lparr>prompt_template := Some ''no_such_template''\<rparr>)) world0
       = handler fetch_timeout (chat sample_args) world0"
proof -
  let ?args = "sample_args\<lparr>prompt_template := Some ''no_such_template''\<rparr>"
  have m: "map_of PROMPT_TEMPLATES ''no_such_template'' = None"
    by (simp add: PROMPT_TEMPLATES_def)
  have p: "''no_such_template'' \<notin> set Object_prototype"
    by (simp add: Object_prototype_def)
  have c: "custom_template ?args = None" by (simp add: sample_args_def)
  have k: "prompt_template ?args = Some ''no_such_template''" by simp
  have u: "?args\<lparr>prompt_template := None\<rparr> = sample_args" by (simp add: sample_args_def)
  show ?thesis
    using unknown_key_is_no_template[OF m p c k, of fetch_timeout world0] m p c k
    by (simp add: u)
qed

text \<open>
  C2: when a custom template is given, the template selected is the custom one whatever
  \<^verbatim>\<open>prompt_template\<close> is, so the system message, the format and the source
  flag, the request body and the result of the handler are the same for every
  \<^verbatim>\<open>prompt_template\<close> as for none; no field comes from a named template.
\<close>

theorem custom_template_supersedes:
  "template (Some custom) key = template (Some custom) None
   \<and> template (Some custom) key = Some custom
   \<and> format uf (template (Some custom) key) = format uf (Some custom)
   \<and> include_sources us (template (Some custom) key) = include_sources us (Some custom)
   \<and> final_messages (template (Some custom) key) msgs = final_messages (Some custom) msgs
   \<and> request_body (args\<lparr>custom_template := Some custom, prompt_template := key\<rparr>)
       = request_body (args\<lparr>custom_template := Some custom, prompt_template := None\<rparr>)
   \<and> handler fetch \<lparr>name = n, arguments = args\<lparr>custom_template := Some custom, prompt_template := key\<rparr>\<rparr> w
       = handler fetch \<lparr>name = n, arguments = args\<lparr>custom_template := Some custom, prompt_template := None\<rparr>\<rparr> w"
proof -
  have t: "\<And>k. template (Some custom) k = Some custom"
    by (simp add: template_def coalesce_def)
  have b: "request_body (args\<lparr>custom_template := Some custom, prompt_template := key\<rparr>)
       = request_body (args\<lparr>custom_template := Some custom, prompt_template := None\<rparr>)"
    by (simp add: request_body_def t)
  have h: "handler fetch \<lparr>name = n, arguments = args\<lparr>custom_template := Some custom, prompt_template := key\<rparr>\<rparr> w
       = handler fetch \<lparr>name = n, arguments = args\<lparr>custom_template := Some custom, prompt_template := None\<rparr>\<rparr> w"
    using b by (simp add: handler_def)
  from b h show ?thesis by (simp add: t)
qed

text \<open>
  C3: the format in effect is the format of the call if it has one, else that of the
  selected template if there is one and it carries a format, else \<^verbatim>\<open>text\<close>; the
  source flag in effect is that of the call if it has one (an explicit false wins over
  a template's true), else that of the selected template, else false. With no template
  and no override: no system message, \<^verbatim>\<open>text\<close>, false. These are the values put
  in the request body.
\<close>

theorem override_chain:
  "format (Some f) tpl = f
   \<and> format None (Some (t\<lparr>tpl_format := Some g\<rparr>)) = g
   \<and> format None (Some (t\<lparr>tpl_format := None\<rparr>)) = ''text''
   \<and> format None None = ''text''
   \<and> include_sources (Some b) tpl = b
   \<and> include_sources (Some False) (Some (t\<lparr>tpl_include_sources := Some True\<rparr>)) = False
   \<and> include_sources None (Some (t\<lparr>tpl_include_sources := Some c\<rparr>)) = c
   \<and> include_sources None (Some (t\<lparr>tpl_include_sources := None\<rparr>)) = False
   \<and> include_sources None None = False
   \<and> template None None = None
   \<and> body_format (request_body args) =
       format (user_format args) (template (custom_template args) (prompt_template args))
   \<and> body_include_sources (request_body args) =
       include_sources (user_include_sources args)
         (template (custom_template args) (prompt_template args))
   \<and> body_messages (request_body (args\<lparr>custom_template := None, prompt_template := None\<rparr>))
       = messages args"
  by (simp add: format_def include_sources_def template_def coalesce_def coalesce_default_def
      opt_chain_def request_body_def Let_def final_messages_def)

text \<open>
  C4, as stated: when no system prompt was resolved, the messages sent are the caller's
  messages unchanged. The handler tests the template, not its \<^verbatim>\<open>system\<close>:
  for a custom template without \<^verbatim>\<open>system\<close>, and for the key
  \<^verbatim>\<open>toString\<close>, which the catalog object inherits, the system prompt
  \<^verbatim>\<open>template?.system\<close> is undefined, yet a system message without content is
  put before the caller's message.
\<close>

theorem contentless_system_message_counterexample:
  "opt_chain
     (template (Some \<lparr>tpl_system = None, tpl_format = Some ''json'',
                      tpl_include_sources = None, tpl_description = None\<rparr>) None)
     tpl_system = None
   \<and> body_messages
       (request_body
          (sample_args\<lparr>custom_template :=
             Some \<lparr>tpl_system = None, tpl_format = Some ''json'',
                   tpl_include_sources = None, tpl_description = None\<rparr>\<rparr>)) =
       [\<lparr>role = ''system'', content = None\<rparr>, \<lparr>role = ''user'', content = Some ''hi''\<rparr>]
   \<and> messages sample_args = [\<lparr>role = ''user'', content = Some ''hi''\<rparr>]
   \<and> opt_chain (template None (Some ''toString'')) tpl_system = None
   \<and> body_messages (request_body (sample_args\<lparr>prompt_template := Some ''toString''\<rparr>)) =
       [\<lparr>role = ''system'', content = None\<rparr>, \<lparr>role = ''user'', content = Some ''hi''\<rparr>]"
proof -
  have m: "map_of PROMPT_TEMPLATES ''toString'' = None"
    by (simp add: PROMPT_TEMPLATES_def)
  have t: "template None (Some ''toString'') = Some inherited_member"
    by (simp add: template_def coalesce_def PROMPT_TEMPLATES_at_def m Object_prototype_def)
  have c: "\<And>k. template (Some \<lparr>tpl_system = None, tpl_format = Some ''json'',
                      tpl_include_sources = None, tpl_description = None\<rparr>) k
           = Some \<lparr>tpl_system = None, tpl_format = Some ''json'',
                      tpl_include_sources = None, tpl_description = None\<rparr>"
    by (simp add: template_def coalesce_def)
  show ?thesis
    by (simp add: request_body_def Let_def sample_args_def t c final_messages_def
        opt_chain_def inherited_member_def)
qed

text \<open>
  C4, as the code has it: when a system prompt \<open>P\<close> was resolved, the messages sent
  are the system message with content \<open>P\<close> followed by the caller's messages; more
  generally, when a template is selected, they are the system message whose content is
  the template's \<^verbatim>\<open>system\<close>, followed by the caller's messages, unchanged,
  in their order and number; when no template is selected, they are the caller's
  messages.
\<close>

theorem system_message_first:
  "(opt_chain tpl tpl_system = Some P \<longrightarrow>
      final_messages tpl msgs = \<lparr>role = ''system'', content = Some P\<rparr> # msgs)
   \<and> final_messages (Some t) msgs = \<lparr>role = ''system'', content = tpl_system t\<rparr> # msgs
   \<and> final_messages (Some (t\<lparr>tpl_system := Some P\<rparr>)) msgs = \<lparr>role = ''system'', content = Some P\<rparr> # msgs
   \<and> tl (final_messages (Some t) msgs) = msgs
   \<and> length (final_messages (Some t) msgs) = Suc (length msgs)
   \<and> final_messages None msgs = msgs
   \<and> body_messages (request_body args) =
       final_messages (template (custom_template args) (prompt_template args)) (messages args)"
  by (cases tpl) (simp_all add: final_messages_def request_body_def Let_def opt_chain_def)

theorem system_message_first_witness:
  "opt_chain (Some \<lparr>tpl_system = Some ''P'', tpl_format = None,
                    tpl_include_sources = None, tpl_description = None\<rparr>) tpl_system = Some ''P''
   \<and> final_messages (Some \<lparr>tpl_system = Some ''P'', tpl_format = None,
                    tpl_include_sources = None, tpl_description = None\<rparr>)
        [\<lparr>role = ''user'', content = Some ''hi''\<rparr>] =
       [\<lparr>role = ''system'', content = Some ''P''\<rparr>, \<lparr>role = ''user'', content = Some ''hi''\<rparr>]
   \<and> final_messages None [\<lparr>role = ''user'', content = Some ''hi''\<rparr>] =
       [\<lparr>role = ''user'', content = Some ''hi''\<rparr>]"
proof -
  have h: "opt_chain (Some \<lparr>tpl_system = Some ''P'', tpl_format = None,
                    tpl_include_sources = None, tpl_description = None\<rparr>) tpl_system = Some ''P''"
    by (simp add: opt_chain_def)
  show ?thesis
    using system_message_first[of "Some \<lparr>tpl_system = Some ''P'', tpl_format = None,
                    tpl_include_sources = None, tpl_description = None\<rparr>" "''P''"
                    "[\<lparr>role = ''user'', content = Some ''hi''\<rparr>]"] h
    by simp
qed



text \<open>
  C6: a success status with a body that lacks \<^verbatim>\<open>choices[0].message\<close> should
  give the diagnostic \<^verbatim>\<open>Invalid response format\<close>. The check
  \<^verbatim>\<open>!data.choices?.[0]?.message\<close> guards every step but the first: for the body
  \<^verbatim>\<open>null\<close> reading \<^verbatim>\<open>data.choices\<close> throws, and the envelope carries the
  text of that \<^verbatim>\<open>TypeError\<close> instead. The check does not look at
  \<^verbatim>\<open>content\<close> either: a message without it gives a success envelope whose
  text is undefined.
\<close>

theorem null_body_diagnostic:
  "fst (handler (fetch_ok JNull) (chat sample_args) world0) =
     Inr \<lparr>env_content =
            [\<lparr>entry_type = ''text'',
              entry_text = Some (JStr (''Error generating completion: Cannot read properties of null (reading ''
                                         @ quote ''choices'' @ '')''))\<rparr>],
          isError = Some True\<rparr>
   \<and> fst (handler (fetch_ok JNull) (chat sample_args) world0) \<noteq>
       Inr (error_envelope (McpError InternalError ''Invalid response format from Perplexity API''))
   \<and> fst (handler (fetch_ok (JObj [(''choices'', JArr [JObj [(''message'', JObj [])]])]))
            (chat sample_args) world0) =
       Inr \<lparr>env_content = [\<lparr>entry_type = ''text'', entry_text = None\<rparr>], isError = None\<rparr>"
  by (simp add: handler_def chat_def Let_def attempt_def fetch_ok_def world0_def
      choices0_message_def null_access_def error_envelope_def quote_def
      request_body_def sample_args_def template_def format_def coalesce_def
      coalesce_default_def opt_chain_def)

text \<open>
  C7: for every key of the catalog, with no custom template and no override, the
  template selected is the catalog's entry, and the system prompt, the format and the
  source flag in effect are the entry's.
\<close>

theorem named_template_resolves:
  assumes "map_of PROMPT_TEMPLATES key = Some t"
  shows "template None (Some key) = Some t
       \<and> final_messages (template None (Some key)) msgs = \<lparr>role = ''system'', content = tpl_system t\<rparr> # msgs
       \<and> Some (format None (template None (Some key))) = tpl_format t
       \<and> Some (include_sources None (template None (Some key))) = tpl_include_sources t"
proof -
  have sel: "template None (Some key) = Some t"
    using assms catalog_entry(1)[OF assms]
    by (simp add: template_def coalesce_def PROMPT_TEMPLATES_at_def)
  obtain f b where "tpl_format t = Some f" "tpl_include_sources t = Some b"
    using catalog_entry(3,4)[OF assms] by blast
  then show ?thesis
    by (simp add: sel final_messages_def format_def include_sources_def coalesce_def
        coalesce_default_def opt_chain_def)
qed

theorem named_template_resolves_witness:
  "map_of PROMPT_TEMPLATES ''api_docs'' = Some (snd (PROMPT_TEMPLATES ! 3))
   \<and> format None (template None (Some ''api_docs'')) = ''json''
   \<and> include_sources None (template None (Some ''api_docs'')) = True
   \<and> final_messages (template None (Some ''api_docs'')) [] =
       [\<lparr>role = ''system'',
         content = Some ''You are an API documentation assistant. Provide clear explanations of API endpoints, parameters, and usage examples.''\<rparr>]"
proof -
  have m: "map_of PROMPT_TEMPLATES ''api_docs'' = Some (snd (PROMPT_TEMPLATES ! 3))"
    by (simp add: PROMPT_TEMPLATES_def)
  have e: "snd (PROMPT_TEMPLATES ! 3) =
     \<lparr>tpl_system = Some ''You are an API documentation assistant. Provide clear explanations of API endpoints, parameters, and usage examples.'',
      tpl_format = Some ''json'',
      tpl_include_sources = Some True,
      tpl_description = Some ''API documentation in structured JSON format with examples''\<rparr>"
    by (simp add: PROMPT_TEMPLATES_def)
  show ?thesis
    using named_template_resolves[OF m, of "[]"] m
    by (simp add: e format_def include_sources_def final_messages_def coalesce_def
        coalesce_default_def opt_chain_def)
qed

text \<open>
  C8: for a success status and a body of the expected shape, the envelope has one entry,
  of type \<^verbatim>\<open>json\<close> when the format in effect is \<^verbatim>\<open>json\<close> and
  \<^verbatim>\<open>text\<close> otherwise, whose text is \<^verbatim>\<open>choices[0].message.content\<close> as it
  came.
\<close>

theorem success_envelope:
  assumes "name req = ''chat_completion''"
    and "fetch (request_body (arguments req)) = Resolves resp"
    and "ok resp"
    and "json resp = Resolves (JObj kvs)"
    and "map_of kvs ''choices'' = Some (JArr (JObj choice # others))"
    and "map_of choice ''message'' = Some (JObj msg)"
    and "map_of msg ''content'' = Some (JStr answer)"
  shows "fst (handler fetch req w) =
           Inr \<lparr>env_content =
                  [\<lparr>entry_type =
                      (if format (user_format (arguments req))
                            (template (custom_template (arguments req))
                               (prompt_template (arguments req))) = ''json''
                       then ''json'' else ''text''),
                    entry_text = Some (JStr answer)\<rparr>],
                isError = None\<rparr>"
proof -
  have c: "choices0_message (JObj kvs) = Inr (Some (JObj msg))"
    using assms(5,6) by (simp add: choices0_message_def)
  show ?thesis
    unfolding handler_chat[OF assms(1)] body_format_eq
    using assms(2,3,4,7) c
    by (simp add: attempt_def)
qed

theorem success_envelope_witness:
  "name (chat (sample_args\<lparr>user_format := Some ''markdown''\<rparr>)) = ''chat_completion''
   \<and> fetch_ok (completion ''# pong'') (request_body (arguments (chat (sample_args\<lparr>user_format := Some ''markdown''\<rparr>))))
       = Resolves \<lparr>ok = True, statusText = ''OK'', json = Resolves (completion ''# pong'')\<rparr>
   \<and> fst (handler (fetch_ok (completion ''# pong'')) (chat (sample_args\<lparr>user_format := Some ''markdown''\<rparr>)) world0) =
       Inr \<lparr>env_content = [\<lparr>entry_type = ''text'', entry_text = Some (JStr ''# pong'')\<rparr>],
            isError = None\<rparr>"
proof -
  let ?args = "sample_args\<lparr>user_format := Some ''markdown''\<rparr>"
  let ?resp = "\<lparr>ok = True, statusText = ''OK'', json = Resolves (completion ''# pong'')\<rparr>"
  have n: "name (chat ?args) = ''chat_completion''" by (simp add: chat_def)
  have f: "fetch_ok (completion ''# pong'') (request_body (arguments (chat ?args))) = Resolves ?resp"
    by (simp add: fetch_ok_def)
  have k: "ok ?resp" by simp
  have j: "json ?resp = Resolves (JObj [(''choices'',
            JArr [JObj [(''message'',
                         JObj [(''role'', JStr ''assistant''), (''content'', JStr ''# pong'')]),
                        (''finish_reason'', JStr ''stop'')]])])"
    by (simp add: completion_def)
  have fm: "format (user_format (arguments (chat ?args)))
              (template (custom_template (arguments (chat ?args)))
                 (prompt_template (arguments (chat ?args)))) = ''markdown''"
    by (simp add: chat_def format_def coalesce_def coalesce_default_def)
  show ?thesis
    using success_envelope[where fetch = "fetch_ok (completion ''# pong'')" and req = "chat ?args"
          and resp = ?resp, OF n f k j, of "[(''message'',
                         JObj [(''role'', JStr ''assistant''), (''content'', JStr ''# pong'')]),
                        (''finish_reason'', JStr ''stop'')]" "[]"
                        "[(''role'', JStr ''assistant''), (''content'', JStr ''# pong'')]" "''# pong''" world0]
      n f
    by (simp add: fm)
qed

text \<open>
  C9: on every path through the remote call the \<^verbatim>\<open>finally\<close> block runs
  \<^verbatim>\<open>clearTimeout\<close> once before the handler returns, and the timer is not left
  pending: it is cancelled, or it has fired (the timeout).
\<close>

theorem timer_is_cleared:
  assumes "name req = ''chat_completion''"
  shows "timeoutId (snd (handler fetch req w)) \<noteq> Pending
       \<and> timeoutId (snd (handler fetch req w)) \<in> {Cleared, Fired}
       \<and> clear_calls (snd (handler fetch req w)) = Suc (clear_calls w)"
proof -
  let ?b = "request_body (arguments req)"
  let ?w = "snd (attempt (body_format ?b) fetch ?b (setTimeout w))"
  have "timeoutId (setTimeout w) = Pending \<or> timeoutId (setTimeout w) = Fired"
    by (simp add: setTimeout_def)
  from attempt_timer[OF this]
  have "(timeoutId ?w = Pending \<or> timeoutId ?w = Fired) \<and> clear_calls ?w = clear_calls (setTimeout w)"
    .
  moreover have "clear_calls (setTimeout w) = clear_calls w" by (simp add: setTimeout_def)
  ultimately show ?thesis
    unfolding handler_chat[OF assms]
    by (auto simp: clearTimeout_def)
qed

theorem timer_is_cleared_witness:
  "name (chat sample_args) = ''chat_completion''
   \<and> snd (handler fetch_timeout (chat sample_args) world0) = \<lparr>timeoutId = Fired, clear_calls = 1\<rparr>
   \<and> snd (handler (fetch_ok (completion ''pong'')) (chat sample_args) world0) = \<lparr>timeoutId = Cleared, clear_calls = 1\<rparr>"
proof -
  have n: "name (chat sample_args) = ''chat_completion''" by (simp add: chat_def)
  note timer_is_cleared[OF n, of fetch_timeout world0]
  then show ?thesis
    by (simp add: handler_def chat_def Let_def attempt_def fetch_timeout_def fetch_ok_def world0_def
      setTimeout_def clearTimeout_def abort_error_def completion_def choices0_message_def)
qed

text \<open>
  C10: when the remote call throws, the envelope has one entry, of type
  \<^verbatim>\<open>text\<close> whatever the format in effect, whose text is
  \<^verbatim>\<open>Error generating completion: \<close> followed by the message of the error:
  the message \<^verbatim>\<open>MCP error <code>: <message>\<close> that the SDK gives an
  \<^verbatim>\<open>McpError\<close>, the message of any other \<^verbatim>\<open>Error\<close>, and the printed
  value of anything else that was thrown.
\<close>

theorem failure_envelope_is_text:
  assumes "name req = ''chat_completion''"
    and "fst (attempt (format (user_format (arguments req))
                         (template (custom_template (arguments req)) (prompt_template (arguments req))))
                fetch (request_body (arguments req)) (setTimeout w)) = Inl error"
  shows "fst (handler fetch req w) =
           Inr \<lparr>env_content =
                  [\<lparr>entry_type = ''text'',
                    entry_text =
                      Some (JStr (''Error generating completion: '' @
                        (case error of
                           McpError code message \<Rightarrow>
                             ''MCP error '' @
                             (case code of
                                MethodNotFound \<Rightarrow> ''-32601''
                              | InvalidParams \<Rightarrow> ''-32602''
                              | InternalError \<Rightarrow> ''-32603'') @ '': '' @ message
                         | JsError kind message \<Rightarrow> message
                         | NonError printed \<Rightarrow> printed)))\<rparr>],
                isError = Some True\<rparr>"
proof -
  have "fst (handler fetch req w) = Inr (error_envelope error)"
    using assms(2) unfolding handler_chat[OF assms(1)] body_format_eq by simp
  then show ?thesis
    by (cases error) (auto simp: error_envelope_def split: ErrorCode.splits)
qed

theorem failure_envelope_is_text_witness:
  "name (chat (sample_args\<lparr>user_format := Some ''json''\<rparr>)) = ''chat_completion''
   \<and> format (user_format (sample_args\<lparr>user_format := Some ''json''\<rparr>))
        (template (custom_template (sample_args\<lparr>user_format := Some ''json''\<rparr>))
                  (prompt_template (sample_args\<lparr>user_format := Some ''json''\<rparr>))) = ''json''
   \<and> fst (handler fetch_timeout (chat (sample_args\<lparr>user_format := Some ''json''\<rparr>)) world0) =
       Inr \<lparr>env_content =
              [\<lparr>entry_type = ''text'',
                entry_text = Some (JStr ''Error generating completion: This operation was aborted'')\<rparr>],
            isError = Some True\<rparr>
   \<and> fst (handler (fetch_ok (JObj [])) (chat (sample_args\<lparr>user_format := Some ''json''\<rparr>)) world0) =
       Inr \<lparr>env_content =
              [\<lparr>entry_type = ''text'',
                entry_text = Some (JStr ''Error generating completion: MCP error -32603: Invalid response format from Perplexity API'')\<rparr>],
            isError = Some True\<rparr>
   \<and> fst (handler (fetch_rejects (NonError ''socket closed'')) (chat (sample_args\<lparr>user_format := Some ''json''\<rparr>)) world0) =
       Inr \<lparr>env_content =
              [\<lparr>entry_type = ''text'',
                entry_text = Some (JStr ''Error generating completion: socket closed'')\<rparr>],
            isError = Some True\<rparr>"
proof -
  let ?args = "sample_args\<lparr>user_format := Some ''json''\<rparr>"
  let ?fmt = "format (user_format (arguments (chat ?args)))
                (template (custom_template (arguments (chat ?args)))
                   (prompt_template (arguments (chat ?args))))"
  have n: "name (chat ?args) = ''chat_completion''" by (simp add: chat_def)
  have f: "format (user_format ?args) (template (custom_template ?args) (prompt_template ?args)) = ''json''"
    by (simp add: format_def coalesce_def coalesce_default_def)
  have a: "fst (attempt ?fmt fetch_timeout (request_body (arguments (chat ?args))) (setTimeout world0))
             = Inl (JsError ''AbortError'' ''This operation was aborted'')"
    by (simp add: attempt_def fetch_timeout_def abort_error_def)
  have b: "fst (attempt ?fmt (fetch_ok (JObj [])) (request_body (arguments (chat ?args))) (setTimeout world0))
             = Inl (McpError InternalError ''Invalid response format from Perplexity API'')"
    by (simp add: attempt_def fetch_ok_def choices0_message_def)
  have c: "fst (attempt ?fmt (fetch_rejects (NonError ''socket closed'')) (request_body (arguments (chat ?args))) (setTimeout world0))
             = Inl (NonError ''socket closed'')"
    by (simp add: attempt_def fetch_rejects_def)
  show ?thesis
    using failure_envelope_is_text[OF n a] failure_envelope_is_text[OF n b]
      failure_envelope_is_text[OF n c] n f
    by simp
qed

end
